theory Spec2Isabelle
  imports Complex_Main
begin

section \<open>Python values\<close>

text \<open>
  The repository is dynamically typed Python: a block's fields hold whatever the caller
  passed. The values that occur are \<open>None\<close>, booleans, integers (unbounded), floats (the
  clock readings of \<open>time.time()\<close>), strings, lists and dictionaries with string keys.
  A finite float is represented by the rational number it denotes, and the float NaN by
  a value of its own; the infinities and the negative zero are not represented. A string
  is a list of characters with code points below 256. Values are compared by content:
  object identity is not represented, so two NaNs are always two objects.
\<close>

datatype pyval =
    PyNone
  | PyBool bool
  | PyInt int
  | PyFloat rat
  | PyNaN
  | PyStr string
  | PyList "pyval list"
  | PyDict "(string \<times> pyval) list"

text \<open>The exceptions that the modelled code can raise, all of them Python built-ins.\<close>

datatype py_error = IndexError | KeyError string | TypeError

fun exception_name :: "py_error \<Rightarrow> string" where
  "exception_name IndexError = ''IndexError''"
| "exception_name (KeyError k) = ''KeyError''"
| "exception_name TypeError = ''TypeError''"

text \<open>Truth value testing, as used by \<open>or\<close>.\<close>

fun py_truthy :: "pyval \<Rightarrow> bool" where
  "py_truthy PyNone = False"
| "py_truthy (PyBool b) = b"
| "py_truthy (PyInt i) = (i \<noteq> 0)"
| "py_truthy (PyFloat x) = (x \<noteq> 0)"
| "py_truthy PyNaN = True"
| "py_truthy (PyStr s) = (s \<noteq> [])"
| "py_truthy (PyList xs) = (xs \<noteq> [])"
| "py_truthy (PyDict kvs) = (kvs \<noteq> [])"

text \<open>\<open>a or b\<close>: the first operand when it is truthy, the second otherwise.\<close>

definition py_or :: "pyval \<Rightarrow> pyval \<Rightarrow> pyval" where
  "py_or a b = (if py_truthy a then a else b)"

text \<open>The numbers: booleans, integers and floats, NaN among them.\<close>

fun is_number :: "pyval \<Rightarrow> bool" where
  "is_number (PyBool b) = True"
| "is_number (PyInt i) = True"
| "is_number (PyFloat x) = True"
| "is_number PyNaN = True"
| "is_number v = False"

text \<open>The numeric value of a number other than NaN; booleans are the integers 0 and 1.\<close>

fun num_val :: "pyval \<Rightarrow> rat option" where
  "num_val (PyBool b) = Some (if b then 1 else 0)"
| "num_val (PyInt i) = Some (of_int i)"
| "num_val (PyFloat x) = Some x"
| "num_val v = None"

text \<open>\<open>a == b\<close>: numbers by value across the numeric types, containers by content;
  NaN equals nothing, itself included.\<close>

fun py_eq :: "pyval \<Rightarrow> pyval \<Rightarrow> bool"
  and py_eq_list :: "pyval list \<Rightarrow> pyval list \<Rightarrow> bool"
  and py_eq_items :: "(string \<times> pyval) list \<Rightarrow> (string \<times> pyval) list \<Rightarrow> bool" where
  "py_eq PyNone PyNone = True"
| "py_eq (PyStr s) (PyStr t) = (s = t)"
| "py_eq (PyList xs) (PyList ys) = py_eq_list xs ys"
| "py_eq (PyDict d) (PyDict e) = (length d = length e \<and> py_eq_items d e)"
| "py_eq a b = (case (num_val a, num_val b) of (Some x, Some y) \<Rightarrow> x = y | _ \<Rightarrow> False)"
| "py_eq_list [] [] = True"
| "py_eq_list (x # xs) (y # ys) = (py_eq x y \<and> py_eq_list xs ys)"
| "py_eq_list _ _ = False"
| "py_eq_items [] e = True"
| "py_eq_items ((k, v) # d) e =
     (case map_of e k of None \<Rightarrow> False | Some w \<Rightarrow> py_eq v w \<and> py_eq_items d e)"

text \<open>Strings are ordered lexicographically by code point.\<close>

fun str_le :: "string \<Rightarrow> string \<Rightarrow> bool" where
  "str_le [] t = True"
| "str_le (c # s) [] = False"
| "str_le (c # s) (d # t) =
     (if (of_char c :: nat) < of_char d then True
      else if (of_char d :: nat) < of_char c then False
      else str_le s t)"

text \<open>\<open>a <= b\<close> and \<open>a > b\<close>: defined between numbers, between strings and between
  lists; every other pairing raises \<open>TypeError\<close>. A comparison with NaN is false.\<close>

fun py_le :: "pyval \<Rightarrow> pyval \<Rightarrow> py_error + bool"
  and py_le_list :: "pyval list \<Rightarrow> pyval list \<Rightarrow> py_error + bool" where
  "py_le (PyStr s) (PyStr t) = Inr (str_le s t)"
| "py_le (PyList xs) (PyList ys) = py_le_list xs ys"
| "py_le a b =
     (if is_number a \<and> is_number b
      then (case (num_val a, num_val b) of (Some x, Some y) \<Rightarrow> Inr (x \<le> y) | _ \<Rightarrow> Inr False)
      else Inl TypeError)"
| "py_le_list [] ys = Inr True"
| "py_le_list (x # xs) [] = Inr False"
| "py_le_list (x # xs) (y # ys) = (if py_eq x y then py_le_list xs ys else py_le x y)"

fun py_gt :: "pyval \<Rightarrow> pyval \<Rightarrow> py_error + bool"
  and py_gt_list :: "pyval list \<Rightarrow> pyval list \<Rightarrow> py_error + bool" where
  "py_gt (PyStr s) (PyStr t) = Inr (\<not> str_le s t)"
| "py_gt (PyList xs) (PyList ys) = py_gt_list xs ys"
| "py_gt a b =
     (if is_number a \<and> is_number b
      then (case (num_val a, num_val b) of (Some x, Some y) \<Rightarrow> Inr (y < x) | _ \<Rightarrow> Inr False)
      else Inl TypeError)"
| "py_gt_list [] ys = Inr False"
| "py_gt_list (x # xs) [] = Inr True"
| "py_gt_list (x # xs) (y # ys) = (if py_eq x y then py_gt_list xs ys else py_gt x y)"

subsection \<open>Decimal text of integers\<close>

definition digit_char :: "nat \<Rightarrow> char" where
  "digit_char d = char_of (48 + d)"

function decimal_nat :: "int \<Rightarrow> string" where
  "decimal_nat n =
     (if n < 10 then [digit_char (nat n)]
      else decimal_nat (n div 10) @ [digit_char (nat (n mod 10))])"
  by pat_completeness auto
termination
  by (relation "measure nat") auto

text \<open>\<open>str(i)\<close> for an integer.\<close>

definition decimal :: "int \<Rightarrow> string" where
  "decimal i = (if i < 0 then CHR ''-'' # decimal_nat (- i) else decimal_nat i)"

subsection \<open>Floats: rounding and \<open>repr\<close>\<close>

text \<open>
  Python floats are IEEE 754 binary64 numbers. \<open>float_round\<close> rounds a rational to the
  nearest such number, ties to even (results beyond the largest finite float are not
  modelled). \<open>float_repr\<close> is \<open>repr\<close>: the shortest decimal numeral that rounds back to
  the float, the nearest one when there are two, the even one when they are equally
  near, laid out in positional notation when the decimal point falls within
  \<open>-4 < decpt \<le> 16\<close> and in exponent notation otherwise.
\<close>

function bit_len :: "int \<Rightarrow> int" where
  "bit_len n = (if n \<le> 0 then 0 else 1 + bit_len (n div 2))"
  by pat_completeness auto
termination
  by (relation "measure nat") auto

definition pow :: "int \<Rightarrow> int \<Rightarrow> rat" where
  "pow b e = (if 0 \<le> e then of_int (b ^ nat e) else 1 / of_int (b ^ nat (- e)))"

definition floor_log2 :: "rat \<Rightarrow> int" where
  "floor_log2 a =
     (let e = bit_len (fst (quotient_of a)) - bit_len (snd (quotient_of a))
      in if pow 2 e \<le> a then e else e - 1)"

definition floor_log10 :: "rat \<Rightarrow> int" where
  "floor_log10 a =
     (let e = int (length (decimal_nat (fst (quotient_of a))))
              - int (length (decimal_nat (snd (quotient_of a))))
      in if pow 10 e \<le> a then e else e - 1)"

definition round_half_even :: "rat \<Rightarrow> int" where
  "round_half_even x =
     (let f = \<lfloor>x\<rfloor>; r = x - of_int f
      in if r < 1 / 2 then f else if 1 / 2 < r then f + 1 else if even f then f else f + 1)"

definition float_round :: "rat \<Rightarrow> rat" where
  "float_round x =
     (if x = 0 then 0
      else let q = pow 2 (max (floor_log2 \<bar>x\<bar>) (- 1022) - 52)
           in sgn x * of_int (round_half_even (\<bar>x\<bar> / q)) * q)"

definition digits_at :: "nat \<Rightarrow> rat \<Rightarrow> (int \<times> int) option" where
  "digits_at n a =
     (let k = floor_log10 a - int n + 1;
          s = a / pow 10 k;
          lo = \<lfloor>s\<rfloor>;
          hi = lo + 1;
          ok_lo = (float_round (of_int lo * pow 10 k) = a);
          ok_hi = (float_round (of_int hi * pow 10 k) = a)
      in if ok_lo \<and> ok_hi
           then (if s - of_int lo < of_int hi - s then Some (lo, k)
                 else if of_int hi - s < s - of_int lo then Some (hi, k)
                 else if even lo then Some (lo, k) else Some (hi, k))
         else if ok_lo then Some (lo, k)
         else if ok_hi then Some (hi, k)
         else None)"

function shortest_digits :: "nat \<Rightarrow> rat \<Rightarrow> int \<times> int" where
  "shortest_digits n a =
     (case digits_at n a of
        Some mk \<Rightarrow> mk
      | None \<Rightarrow>
          if 17 \<le> n then (round_half_even (a / pow 10 (floor_log10 a - 16)), floor_log10 a - 16)
          else shortest_digits (Suc n) a)"
  by pat_completeness auto
termination
  by (relation "measure (\<lambda>(n, a). 17 - n)") auto

definition strip_zeros :: "string \<Rightarrow> string" where
  "strip_zeros ds = rev (dropWhile (\<lambda>c. c = CHR ''0'') (rev ds))"

definition exponent_text :: "int \<Rightarrow> string" where
  "exponent_text e =
     (if e < 0 then ''-'' else ''+'') @
     (if \<bar>e\<bar> < 10 then ''0'' else []) @ decimal_nat \<bar>e\<bar>"

definition float_layout :: "string \<Rightarrow> int \<Rightarrow> string" where
  "float_layout ds decpt =
     (if decpt \<le> - 4 \<or> 16 < decpt
        then hd ds # (if tl ds = [] then [] else ''.'' @ tl ds) @ ''e'' @ exponent_text (decpt - 1)
      else if decpt \<le> 0 then ''0.'' @ replicate (nat (- decpt)) (CHR ''0'') @ ds
      else if int (length ds) \<le> decpt
        then ds @ replicate (nat decpt - length ds) (CHR ''0'') @ ''.0''
      else take (nat decpt) ds @ ''.'' @ drop (nat decpt) ds)"

definition float_digits :: "rat \<Rightarrow> string \<times> int" where
  "float_digits a =
     (let mk = shortest_digits 1 a; ds = decimal_nat (fst mk)
      in (strip_zeros ds, int (length ds) + snd mk))"

definition float_repr :: "rat \<Rightarrow> string" where
  "float_repr x =
     (if x = 0 then ''0.0''
      else (if x < 0 then ''-'' else []) @
           float_layout (fst (float_digits \<bar>x\<bar>)) (snd (float_digits \<bar>x\<bar>)))"


subsection \<open>\<open>repr\<close>, \<open>str\<close> and UTF-8\<close>

definition hex_char :: "nat \<Rightarrow> char" where
  "hex_char d = (if d < 10 then char_of (48 + d) else char_of (87 + d))"

definition quote_for :: "string \<Rightarrow> char" where
  "quote_for s = (if CHR 0x27 \<in> set s \<and> CHR 0x22 \<notin> set s then CHR 0x22 else CHR 0x27)"

definition repr_char :: "char \<Rightarrow> char \<Rightarrow> string" where
  "repr_char q c =
     (if c = q \<or> c = CHR 0x5C then [CHR 0x5C, c]
      else if (of_char c :: nat) = 9 then [CHR 0x5C, CHR ''t'']
      else if (of_char c :: nat) = 10 then [CHR 0x5C, CHR ''n'']
      else if (of_char c :: nat) = 13 then [CHR 0x5C, CHR ''r'']
      else if (of_char c :: nat) < 32 \<or> (127 \<le> (of_char c :: nat) \<and> (of_char c :: nat) \<le> 160)
              \<or> (of_char c :: nat) = 173
        then [CHR 0x5C, CHR ''x'', hex_char (of_char c div 16), hex_char (of_char c mod 16)]
      else [c])"

definition repr_str :: "string \<Rightarrow> string" where
  "repr_str s = [quote_for s] @ concat (map (repr_char (quote_for s)) s) @ [quote_for s]"

fun join :: "string \<Rightarrow> string list \<Rightarrow> string" where
  "join sep [] = []"
| "join sep [x] = x"
| "join sep (x # y # ys) = x @ sep @ join sep (y # ys)"

fun py_repr :: "pyval \<Rightarrow> string" where
  "py_repr PyNone = ''None''"
| "py_repr (PyBool b) = (if b then ''True'' else ''False'')"
| "py_repr (PyInt i) = decimal i"
| "py_repr (PyFloat x) = float_repr x"
| "py_repr PyNaN = ''nan''"
| "py_repr (PyStr s) = repr_str s"
| "py_repr (PyList xs) = ''['' @ join '', '' (map py_repr xs) @ '']''"
| "py_repr (PyDict kvs) =
     ''{'' @ join '', '' (map (\<lambda>(k, v). repr_str k @ '': '' @ py_repr v) kvs) @ ''}''"

text \<open>\<open>str(v)\<close>, which is also what \<open>"{}".format(v)\<close> and \<open>f"{v}"\<close> insert.\<close>

fun py_str :: "pyval \<Rightarrow> string" where
  "py_str (PyStr s) = s"
| "py_str v = py_repr v"

text \<open>\<open>s.encode()\<close>: the UTF-8 bytes of a string.\<close>

definition utf8_char :: "char \<Rightarrow> int list" where
  "utf8_char c =
     (if (of_char c :: nat) < 128 then [of_char c]
      else [192 + of_char c div 64, 128 + of_char c mod 64])"

definition encode :: "string \<Rightarrow> int list" where
  "encode s = concat (map utf8_char s)"

section \<open>SHA-256\<close>

text \<open>
  \<open>hashlib.sha256(bytes).hexdigest()\<close> is the SHA-256 function of FIPS 180-4, printed
  as 64 lowercase hexadecimal digits. A 32-bit word is an integer below \<open>2 ^ 32\<close>, with
  the wrap-around written out.
\<close>

definition m32 :: "int \<Rightarrow> int" where
  "m32 x = x mod 4294967296"

definition shr :: "nat \<Rightarrow> int \<Rightarrow> int" where
  "shr n x = x div 2 ^ n"

definition rotr :: "nat \<Rightarrow> int \<Rightarrow> int" where
  "rotr n x = x div 2 ^ n + m32 (x * 2 ^ (32 - n))"

definition Ch :: "int \<Rightarrow> int \<Rightarrow> int \<Rightarrow> int" where
  "Ch x y z = xor (and x y) (and (4294967295 - x) z)"

definition Maj :: "int \<Rightarrow> int \<Rightarrow> int \<Rightarrow> int" where
  "Maj x y z = xor (xor (and x y) (and x z)) (and y z)"

definition bsig0 :: "int \<Rightarrow> int" where
  "bsig0 x = xor (xor (rotr 2 x) (rotr 13 x)) (rotr 22 x)"

definition bsig1 :: "int \<Rightarrow> int" where
  "bsig1 x = xor (xor (rotr 6 x) (rotr 11 x)) (rotr 25 x)"

definition ssig0 :: "int \<Rightarrow> int" where
  "ssig0 x = xor (xor (rotr 7 x) (rotr 18 x)) (shr 3 x)"

definition ssig1 :: "int \<Rightarrow> int" where
  "ssig1 x = xor (xor (rotr 17 x) (rotr 19 x)) (shr 10 x)"

text \<open>
  The round constants (the first 32 bits of the fractional parts of the cube roots of
  the first 64 primes) and the initial hash value (likewise for the square roots of the
  first 8 primes), as decimal numerals.
\<close>

definition K256 :: "int list" where
  "K256 =
    [1116352408, 1899447441, 3049323471, 3921009573, 961987163, 1508970993,
     2453635748, 2870763221, 3624381080, 310598401, 607225278, 1426881987,
     1925078388, 2162078206, 2614888103, 3248222580, 3835390401, 4022224774,
     264347078, 604807628, 770255983, 1249150122, 1555081692, 1996064986,
     2554220882, 2821834349, 2952996808, 3210313671, 3336571891, 3584528711,
     113926993, 338241895, 666307205, 773529912, 1294757372, 1396182291,
     1695183700, 1986661051, 2177026350, 2456956037, 2730485921, 2820302411,
     3259730800, 3345764771, 3516065817, 3600352804, 4094571909, 275423344,
     430227734, 506948616, 659060556, 883997877, 958139571, 1322822218,
     1537002063, 1747873779, 1955562222, 2024104815, 2227730452, 2361852424,
     2428436474, 2756734187, 3204031479, 3329325298]"

definition H256 :: "int list" where
  "H256 =
    [1779033703, 3144134277, 1013904242, 2773480762, 1359893119, 2600822924,
     528734635, 1541459225]"

text \<open>The message schedule: the next word from the sixteen before it.\<close>

definition next_w :: "int list \<Rightarrow> int" where
  "next_w win = m32 (ssig1 (win ! 14) + win ! 9 + ssig0 (win ! 1) + win ! 0)"

fun extend :: "nat \<Rightarrow> int list \<Rightarrow> int list" where
  "extend 0 ws = ws"
| "extend (Suc n) ws = extend n (ws @ [next_w (drop (length ws - 16) ws)])"

definition T1 :: "int \<Rightarrow> int \<Rightarrow> int \<Rightarrow> int \<Rightarrow> int \<Rightarrow> int \<Rightarrow> int" where
  "T1 e f g h k w = m32 (h + bsig1 e + Ch e f g + k + w)"

definition T2 :: "int \<Rightarrow> int \<Rightarrow> int \<Rightarrow> int" where
  "T2 a b c = m32 (bsig0 a + Maj a b c)"

fun rotate_state :: "int list \<Rightarrow> int \<Rightarrow> int \<Rightarrow> int list" where
  "rotate_state [a, b, c, d, e, f, g, h] t1 t2 = [m32 (t1 + t2), a, b, c, m32 (d + t1), e, f, g]"
| "rotate_state s t1 t2 = s"

fun round256 :: "int list \<Rightarrow> int \<times> int \<Rightarrow> int list" where
  "round256 [a, b, c, d, e, f, g, h] (k, w) =
     rotate_state [a, b, c, d, e, f, g, h] (T1 e f g h k w) (T2 a b c)"
| "round256 s kw = s"

definition add32 :: "int \<Rightarrow> int \<Rightarrow> int" where
  "add32 x y = m32 (x + y)"

definition compress :: "int list \<Rightarrow> int list \<Rightarrow> int list" where
  "compress hs blk = map2 add32 hs (foldl round256 hs (zip K256 (extend 48 blk)))"

function chunks :: "nat \<Rightarrow> 'a list \<Rightarrow> 'a list list" where
  "chunks k xs = (if k = 0 \<or> xs = [] then [] else take k xs # chunks k (drop k xs))"
  by pat_completeness auto
termination
  by (relation "measure (\<lambda>(k, xs). length xs)") auto

definition be_int :: "int list \<Rightarrow> int" where
  "be_int bs = foldl (\<lambda>acc b. acc * 256 + b) 0 bs"

definition be_bytes8 :: "int \<Rightarrow> int list" where
  "be_bytes8 v = map (\<lambda>i. (v div 256 ^ i) mod 256) [7, 6, 5, 4, 3, 2, 1, 0]"

definition pad :: "int list \<Rightarrow> int list" where
  "pad bs =
     bs @ [128] @ replicate ((119 - length bs mod 64) mod 64) 0 @ be_bytes8 (8 * int (length bs))"

definition sha256 :: "int list \<Rightarrow> int list" where
  "sha256 bs = foldl compress H256 (map (\<lambda>c. map be_int (chunks 4 c)) (chunks 64 (pad bs)))"

definition hex32 :: "int \<Rightarrow> string" where
  "hex32 w = map (\<lambda>i. hex_char (nat ((w div 16 ^ i) mod 16))) [7, 6, 5, 4, 3, 2, 1, 0]"

definition hexdigest :: "int list \<Rightarrow> string" where
  "hexdigest bs = concat (map hex32 (sha256 bs))"

section \<open>Block\<close>

text \<open>The five attributes that \<open>Block.__init__\<close> assigns, in the order it assigns them.\<close>

record Block =
  index :: pyval
  proof_no :: pyval
  prev_hash :: pyval
  data :: pyval
  timestamp :: pyval

text \<open>
  \<open>Block(index, proof_no, prev_hash, data, timestamp)\<close>. The last argument defaults to
  \<open>None\<close>; \<open>now\<close> is what \<open>time.time()\<close> returns at the moment of construction.
\<close>

definition Block_init :: "pyval \<Rightarrow> pyval \<Rightarrow> pyval \<Rightarrow> pyval \<Rightarrow> pyval \<Rightarrow> rat \<Rightarrow> Block" where
  "Block_init idx prf prev dat ts now =
     \<lparr>index = idx, proof_no = prf, prev_hash = prev, data = dat,
      timestamp = py_or ts (PyFloat now)\<rparr>"

definition block_of_string :: "Block \<Rightarrow> string" where
  "block_of_string b =
     py_str (index b) @ py_str (proof_no b) @ py_str (prev_hash b) @ py_str (data b) @
     py_str (timestamp b)"

definition calculate_hash :: "Block \<Rightarrow> string" where
  "calculate_hash b = hexdigest (encode (block_of_string b))"

text \<open>\<open>vars(block)\<close>: the attribute dictionary.\<close>

definition vars :: "Block \<Rightarrow> (string \<times> pyval) list" where
  "vars b =
     [(''index'', index b), (''proof_no'', proof_no b), (''prev_hash'', prev_hash b),
      (''data'', data b), (''timestamp'', timestamp b)]"

section \<open>BlockChain\<close>

text \<open>
  \<open>nodes\<close> is a Python set: its elements are hashable and pairwise unequal under \<open>==\<close>.
  It is kept as the list of its elements.
\<close>

record BlockChain =
  chain :: "Block list"
  current_data :: "pyval list"
  nodes :: "pyval list"

definition construct_block :: "BlockChain \<Rightarrow> pyval \<Rightarrow> pyval \<Rightarrow> rat \<Rightarrow> Block \<times> BlockChain" where
  "construct_block self prf prev now =
     (let block = Block_init (PyInt (int (length (chain self)))) prf prev
                    (PyList (current_data self)) PyNone now
      in (block, self\<lparr>current_data := [], chain := chain self @ [block]\<rparr>))"

definition construct_genesis :: "BlockChain \<Rightarrow> rat \<Rightarrow> BlockChain" where
  "construct_genesis self now = snd (construct_block self (PyInt 0) (PyInt 0) now)"

definition BlockChain_init :: "rat \<Rightarrow> BlockChain" where
  "BlockChain_init now = construct_genesis \<lparr>chain = [], current_data = [], nodes = []\<rparr> now"

definition new_data :: "BlockChain \<Rightarrow> pyval \<Rightarrow> pyval \<Rightarrow> pyval \<Rightarrow> bool \<times> BlockChain" where
  "new_data self sender recipient quantity =
     (True,
      self\<lparr>current_data := current_data self @
        [PyDict [(''sender'', sender), (''recipient'', recipient), (''quantity'', quantity)]]\<rparr>)"

text \<open>\<open>verifying_proof(last_proof, proof)\<close>; the parameter names are those of the source.\<close>

definition verifying_proof :: "pyval \<Rightarrow> pyval \<Rightarrow> bool" where
  "verifying_proof last_proof proof =
     (take 4 (hexdigest (encode (py_str last_proof @ py_str proof))) = ''0000'')"

text \<open>
  \<open>proof_of_work(last_proof)\<close>. The \<open>return\<close> is inside the body of the \<open>while\<close>, so the
  body runs at most once: when the condition holds at \<open>proof_no = 0\<close> the counter is
  incremented and returned, and when it does not the loop is skipped and the function
  ends without a \<open>return\<close>, which yields \<open>None\<close>.
\<close>

definition proof_of_work :: "pyval \<Rightarrow> pyval" where
  "proof_of_work last_proof =
     (if verifying_proof (PyInt 0) last_proof = False then PyInt (0 + 1) else PyNone)"

text \<open>\<open>self.chain[-1]\<close>\<close>

definition latest_block :: "BlockChain \<Rightarrow> py_error + Block" where
  "latest_block self = (case chain self of [] \<Rightarrow> Inl IndexError | b # bs \<Rightarrow> Inr (last (b # bs)))"

text \<open>
  \<open>block_mining(details_miner)\<close>: the outcome together with the state it leaves. The
  reward is staged before the tip is read, so it stays staged when that read raises.
\<close>

definition block_mining ::
  "BlockChain \<Rightarrow> pyval \<Rightarrow> rat \<Rightarrow> (py_error + (string \<times> pyval) list) \<times> BlockChain" where
  "block_mining self details_miner now =
     (let staged = snd (new_data self (PyStr ''0'') details_miner (PyInt 1)) in
      case latest_block staged of
        Inl e \<Rightarrow> (Inl e, staged)
      | Inr last_block \<Rightarrow>
          let last_proof_no = proof_no last_block;
              prf = proof_of_work last_proof_no;
              last_hash = calculate_hash last_block;
              built = construct_block staged prf (PyStr last_hash) now
          in (Inr (vars (fst built)), snd built))"

text \<open>Lists and dictionaries are unhashable; every other value can be a set element.\<close>

fun hashable :: "pyval \<Rightarrow> bool" where
  "hashable (PyList xs) = False"
| "hashable (PyDict kvs) = False"
| "hashable v = True"

text \<open>
  \<open>create_node(address)\<close>: \<open>self.nodes.add(address)\<close> raises \<open>TypeError\<close> for an unhashable
  address and leaves the set as it is when it already holds an equal element.
\<close>

definition create_node :: "BlockChain \<Rightarrow> pyval \<Rightarrow> (py_error + bool) \<times> BlockChain" where
  "create_node self address =
     (if \<not> hashable address then (Inl TypeError, self)
      else if list_ex (py_eq address) (nodes self) then (Inr True, self)
      else (Inr True, self\<lparr>nodes := nodes self @ [address]\<rparr>))"


text \<open>\<open>block_data[key]\<close>\<close>

definition getitem :: "(string \<times> pyval) list \<Rightarrow> string \<Rightarrow> py_error + pyval" where
  "getitem d k = (case map_of d k of None \<Rightarrow> Inl (KeyError k) | Some v \<Rightarrow> Inr v)"

text \<open>\<open>obtain_block_object(block_data)\<close>: the subscripts are evaluated left to right.\<close>

definition obtain_block_object :: "(string \<times> pyval) list \<Rightarrow> rat \<Rightarrow> py_error + Block" where
  "obtain_block_object block_data now =
     (case getitem block_data ''index'' of Inl e \<Rightarrow> Inl e | Inr i \<Rightarrow>
      case getitem block_data ''proof_no'' of Inl e \<Rightarrow> Inl e | Inr p \<Rightarrow>
      case getitem block_data ''prev_hash'' of Inl e \<Rightarrow> Inl e | Inr h \<Rightarrow>
      case getitem block_data ''data'' of Inl e \<Rightarrow> Inl e | Inr d \<Rightarrow>
      case getitem block_data ''timestamp'' of Inl e \<Rightarrow> Inl e | Inr t \<Rightarrow>
      Inr (Block_init i p h d t now))"

text \<open>The ledgers that the operations of \<open>BlockChain\<close> can produce.\<close>

inductive reachable :: "BlockChain \<Rightarrow> bool" where
  reachable_init: "reachable (BlockChain_init now)"
| reachable_genesis: "reachable self \<Longrightarrow> reachable (construct_genesis self now)"
| reachable_block: "reachable self \<Longrightarrow> reachable (snd (construct_block self prf prev now))"
| reachable_new_data: "reachable self \<Longrightarrow> reachable (snd (new_data self s r q))"
| reachable_mining: "reachable self \<Longrightarrow> reachable (snd (block_mining self miner now))"
| reachable_node: "reachable self \<Longrightarrow> reachable (snd (create_node self address))"

section \<open>The statements of the specification\<close>

text \<open>
  The verification predicate in the words of the specification: digest the UTF-8 text
  of the decimal numeral of \<open>a\<close> followed by that of \<open>b\<close>, with no separator, and
  compare the first four hexadecimal digits with \<open>0000\<close>.
\<close>

definition spec_verify :: "int \<Rightarrow> int \<Rightarrow> bool" where
  "spec_verify a b = (take 4 (hexdigest (encode (decimal a @ decimal b))) = ''0000'')"

text \<open>The keys that \<open>obtain_block_object\<close> reads, in the order it reads them.\<close>

definition required_keys :: "string list" where
  "required_keys = [''index'', ''proof_no'', ''prev_hash'', ''data'', ''timestamp'']"

subsection \<open>Concrete inputs\<close>

definition empty_ledger :: BlockChain where
  "empty_ledger = \<lparr>chain = [], current_data = [], nodes = []\<rparr>"

definition example_prev :: Block where
  "example_prev = \<lparr>index = PyInt 0, proof_no = PyInt 69732, prev_hash = PyInt 0,
     data = PyList [], timestamp = PyFloat 1\<rparr>"



text \<open>The block that the constructor builds when the clock reads \<open>0.0\<close>.\<close>

definition epoch_block :: Block where
  "epoch_block = \<lparr>index = PyInt 0, proof_no = PyInt 69732, prev_hash = PyInt 0,
     data = PyList [], timestamp = PyFloat 0\<rparr>"

definition ill_typed_record :: "(string \<times> pyval) list" where
  "ill_typed_record =
     [(''index'', PyStr ''first''), (''proof_no'', PyList []), (''prev_hash'', PyNone),
      (''data'', PyInt 7), (''timestamp'', PyStr ''noon'')]"

section \<open>Digests of concrete messages\<close>

text \<open>
  Each digest is computed in stages: the bytes, the padded message, its blocks of
  sixteen words, the compression of each block, the hexadecimal text. The first two
  are the one-block and two-block test vectors of FIPS 180-4.
\<close>

lemma sha256_abc:
  "hexdigest (encode ''abc'') =
     ''ba7816bf8f01cfea414140de5dae2223b00361a396177a9cb410ff61f20015ad''"
proof -
  have bytes: "encode ''abc'' =
      [97, 98, 99]"
    by code_simp
  have padded: "pad
      [97, 98, 99] =
      [97, 98, 99, 128, 0, 0, 0, 0, 0, 0, 0, 0, 0, 0, 0, 0, 0, 0, 0, 0, 0, 0, 0, 0, 0,
      0, 0, 0, 0, 0, 0, 0, 0, 0, 0, 0, 0, 0, 0, 0, 0, 0, 0, 0, 0, 0, 0, 0, 0, 0, 0, 0,
      0, 0, 0, 0, 0, 0, 0, 0, 0, 0, 0, 24]"
    by code_simp
  have blocks: "map (\<lambda>c. map be_int (chunks 4 c)) (chunks 64
      [97, 98, 99, 128, 0, 0, 0, 0, 0, 0, 0, 0, 0, 0, 0, 0, 0, 0, 0, 0, 0, 0, 0, 0, 0,
      0, 0, 0, 0, 0, 0, 0, 0, 0, 0, 0, 0, 0, 0, 0, 0, 0, 0, 0, 0, 0, 0, 0, 0, 0, 0, 0,
      0, 0, 0, 0, 0, 0, 0, 0, 0, 0, 0, 24]) =
      [[1633837952, 0, 0, 0, 0, 0, 0, 0, 0, 0, 0, 0, 0, 0, 0, 24]]"
    by code_simp
  have state1: "compress H256
      [1633837952, 0, 0, 0, 0, 0, 0, 0, 0, 0, 0, 0, 0, 0, 0, 24] =
      [3128432319, 2399260650, 1094795486, 1571693091, 2953011619, 2518121116,
      3021012833, 4060091821]"
    by code_simp
  have hex: "concat (map hex32
      [3128432319, 2399260650, 1094795486, 1571693091, 2953011619, 2518121116,
      3021012833, 4060091821]) =
      ''ba7816bf8f01cfea414140de5dae2223b00361a396177a9cb410ff61f20015ad''"
    by code_simp
  show ?thesis
    by (simp only: hexdigest_def sha256_def bytes padded blocks state1 hex foldl.simps)
qed

lemma sha256_two_blocks:
  "hexdigest (encode ''abcdbcdecdefdefgefghfghighijhijkijkljklmklmnlmnomnopnopq'') =
     ''248d6a61d20638b8e5c026930c3e6039a33ce45964ff2167f6ecedd419db06c1''"
proof -
  have bytes: "encode ''abcdbcdecdefdefgefghfghighijhijkijkljklmklmnlmnomnopnopq'' =
      [97, 98, 99, 100, 98, 99, 100, 101, 99, 100, 101, 102, 100, 101, 102, 103, 101,
      102, 103, 104, 102, 103, 104, 105, 103, 104, 105, 106, 104, 105, 106, 107, 105,
      106, 107, 108, 106, 107, 108, 109, 107, 108, 109, 110, 108, 109, 110, 111, 109,
      110, 111, 112, 110, 111, 112, 113]"
    by code_simp
  have padded: "pad
      [97, 98, 99, 100, 98, 99, 100, 101, 99, 100, 101, 102, 100, 101, 102, 103, 101,
      102, 103, 104, 102, 103, 104, 105, 103, 104, 105, 106, 104, 105, 106, 107, 105,
      106, 107, 108, 106, 107, 108, 109, 107, 108, 109, 110, 108, 109, 110, 111, 109,
      110, 111, 112, 110, 111, 112, 113] =
      [97, 98, 99, 100, 98, 99, 100, 101, 99, 100, 101, 102, 100, 101, 102, 103, 101,
      102, 103, 104, 102, 103, 104, 105, 103, 104, 105, 106, 104, 105, 106, 107, 105,
      106, 107, 108, 106, 107, 108, 109, 107, 108, 109, 110, 108, 109, 110, 111, 109,
      110, 111, 112, 110, 111, 112, 113, 128, 0, 0, 0, 0, 0, 0, 0, 0, 0, 0, 0, 0, 0, 0,
      0, 0, 0, 0, 0, 0, 0, 0, 0, 0, 0, 0, 0, 0, 0, 0, 0, 0, 0, 0, 0, 0, 0, 0, 0, 0, 0,
      0, 0, 0, 0, 0, 0, 0, 0, 0, 0, 0, 0, 0, 0, 0, 0, 0, 0, 0, 0, 0, 0, 0, 0, 0, 0, 0,
      0, 1, 192]"
    by code_simp
  have blocks: "map (\<lambda>c. map be_int (chunks 4 c)) (chunks 64
      [97, 98, 99, 100, 98, 99, 100, 101, 99, 100, 101, 102, 100, 101, 102, 103, 101,
      102, 103, 104, 102, 103, 104, 105, 103, 104, 105, 106, 104, 105, 106, 107, 105,
      106, 107, 108, 106, 107, 108, 109, 107, 108, 109, 110, 108, 109, 110, 111, 109,
      110, 111, 112, 110, 111, 112, 113, 128, 0, 0, 0, 0, 0, 0, 0, 0, 0, 0, 0, 0, 0, 0,
      0, 0, 0, 0, 0, 0, 0, 0, 0, 0, 0, 0, 0, 0, 0, 0, 0, 0, 0, 0, 0, 0, 0, 0, 0, 0, 0,
      0, 0, 0, 0, 0, 0, 0, 0, 0, 0, 0, 0, 0, 0, 0, 0, 0, 0, 0, 0, 0, 0, 0, 0, 0, 0, 0,
      0, 1, 192]) =
      [[1633837924, 1650680933, 1667523942, 1684366951, 1701209960, 1718052969,
      1734895978, 1751738987, 1768581996, 1785425005, 1802268014, 1819111023,
      1835954032, 1852797041, 2147483648, 0], [0, 0, 0, 0, 0, 0, 0, 0, 0, 0, 0, 0, 0, 0,
      0, 448]]"
    by code_simp
  have state1: "compress H256
      [1633837924, 1650680933, 1667523942, 1684366951, 1701209960, 1718052969,
      1734895978, 1751738987, 1768581996, 1785425005, 1802268014, 1819111023,
      1835954032, 1852797041, 2147483648, 0] =
      [2246464982, 1098520469, 862140266, 1649204828, 1994429833, 3401971729,
      3427480257, 4061025082]"
    by code_simp
  have state2: "compress 
      [2246464982, 1098520469, 862140266, 1649204828, 1994429833, 3401971729,
      3427480257, 4061025082]
      [0, 0, 0, 0, 0, 0, 0, 0, 0, 0, 0, 0, 0, 0, 0, 448] =
      [613247585, 3523623096, 3854575251, 205414457, 2738676825, 1694441831, 4142722516,
      433784513]"
    by code_simp
  have hex: "concat (map hex32
      [613247585, 3523623096, 3854575251, 205414457, 2738676825, 1694441831, 4142722516,
      433784513]) =
      ''248d6a61d20638b8e5c026930c3e6039a33ce45964ff2167f6ecedd419db06c1''"
    by code_simp
  show ?thesis
    by (simp only: hexdigest_def sha256_def bytes padded blocks state1 state2 hex foldl.simps)
qed

lemma sha256_00:
  "hexdigest (encode ''00'') =
     ''f1534392279bddbf9d43dde8701cb5be14b82f76ec6607bf8d6ad557f60f304e''"
proof -
  have bytes: "encode ''00'' =
      [48, 48]"
    by code_simp
  have padded: "pad
      [48, 48] =
      [48, 48, 128, 0, 0, 0, 0, 0, 0, 0, 0, 0, 0, 0, 0, 0, 0, 0, 0, 0, 0, 0, 0, 0, 0, 0,
      0, 0, 0, 0, 0, 0, 0, 0, 0, 0, 0, 0, 0, 0, 0, 0, 0, 0, 0, 0, 0, 0, 0, 0, 0, 0, 0,
      0, 0, 0, 0, 0, 0, 0, 0, 0, 0, 16]"
    by code_simp
  have blocks: "map (\<lambda>c. map be_int (chunks 4 c)) (chunks 64
      [48, 48, 128, 0, 0, 0, 0, 0, 0, 0, 0, 0, 0, 0, 0, 0, 0, 0, 0, 0, 0, 0, 0, 0, 0, 0,
      0, 0, 0, 0, 0, 0, 0, 0, 0, 0, 0, 0, 0, 0, 0, 0, 0, 0, 0, 0, 0, 0, 0, 0, 0, 0, 0,
      0, 0, 0, 0, 0, 0, 0, 0, 0, 0, 16]) =
      [[808484864, 0, 0, 0, 0, 0, 0, 0, 0, 0, 0, 0, 0, 0, 0, 16]]"
    by code_simp
  have state1: "compress H256
      [808484864, 0, 0, 0, 0, 0, 0, 0, 0, 0, 0, 0, 0, 0, 0, 16] =
      [4048765842, 664526271, 2638470632, 1880929726, 347615094, 3966109631, 2372588887,
      4128190542]"
    by code_simp
  have hex: "concat (map hex32
      [4048765842, 664526271, 2638470632, 1880929726, 347615094, 3966109631, 2372588887,
      4128190542]) =
      ''f1534392279bddbf9d43dde8701cb5be14b82f76ec6607bf8d6ad557f60f304e''"
    by code_simp
  show ?thesis
    by (simp only: hexdigest_def sha256_def bytes padded blocks state1 hex foldl.simps)
qed

lemma sha256_10:
  "hexdigest (encode ''10'') =
     ''4a44dc15364204a80fe80e9039455cc1608281820fe2b24f1e5233ade6af1dd5''"
proof -
  have bytes: "encode ''10'' =
      [49, 48]"
    by code_simp
  have padded: "pad
      [49, 48] =
      [49, 48, 128, 0, 0, 0, 0, 0, 0, 0, 0, 0, 0, 0, 0, 0, 0, 0, 0, 0, 0, 0, 0, 0, 0, 0,
      0, 0, 0, 0, 0, 0, 0, 0, 0, 0, 0, 0, 0, 0, 0, 0, 0, 0, 0, 0, 0, 0, 0, 0, 0, 0, 0,
      0, 0, 0, 0, 0, 0, 0, 0, 0, 0, 16]"
    by code_simp
  have blocks: "map (\<lambda>c. map be_int (chunks 4 c)) (chunks 64
      [49, 48, 128, 0, 0, 0, 0, 0, 0, 0, 0, 0, 0, 0, 0, 0, 0, 0, 0, 0, 0, 0, 0, 0, 0, 0,
      0, 0, 0, 0, 0, 0, 0, 0, 0, 0, 0, 0, 0, 0, 0, 0, 0, 0, 0, 0, 0, 0, 0, 0, 0, 0, 0,
      0, 0, 0, 0, 0, 0, 0, 0, 0, 0, 16]) =
      [[825262080, 0, 0, 0, 0, 0, 0, 0, 0, 0, 0, 0, 0, 0, 0, 16]]"
    by code_simp
  have state1: "compress H256
      [825262080, 0, 0, 0, 0, 0, 0, 0, 0, 0, 0, 0, 0, 0, 0, 16] =
      [1246026773, 910296232, 266866320, 960847041, 1619165570, 266515023, 508703661,
      3870236117]"
    by code_simp
  have hex: "concat (map hex32
      [1246026773, 910296232, 266866320, 960847041, 1619165570, 266515023, 508703661,
      3870236117]) =
      ''4a44dc15364204a80fe80e9039455cc1608281820fe2b24f1e5233ade6af1dd5''"
    by code_simp
  show ?thesis
    by (simp only: hexdigest_def sha256_def bytes padded blocks state1 hex foldl.simps)
qed

lemma sha256_069732:
  "hexdigest (encode ''069732'') =
     ''0000e326186933fa83f0efd581d09409022ec07b73a10f549bbaa6472e8a1175''"
proof -
  have bytes: "encode ''069732'' =
      [48, 54, 57, 55, 51, 50]"
    by code_simp
  have padded: "pad
      [48, 54, 57, 55, 51, 50] =
      [48, 54, 57, 55, 51, 50, 128, 0, 0, 0, 0, 0, 0, 0, 0, 0, 0, 0, 0, 0, 0, 0, 0, 0,
      0, 0, 0, 0, 0, 0, 0, 0, 0, 0, 0, 0, 0, 0, 0, 0, 0, 0, 0, 0, 0, 0, 0, 0, 0, 0, 0,
      0, 0, 0, 0, 0, 0, 0, 0, 0, 0, 0, 0, 48]"
    by code_simp
  have blocks: "map (\<lambda>c. map be_int (chunks 4 c)) (chunks 64
      [48, 54, 57, 55, 51, 50, 128, 0, 0, 0, 0, 0, 0, 0, 0, 0, 0, 0, 0, 0, 0, 0, 0, 0,
      0, 0, 0, 0, 0, 0, 0, 0, 0, 0, 0, 0, 0, 0, 0, 0, 0, 0, 0, 0, 0, 0, 0, 0, 0, 0, 0,
      0, 0, 0, 0, 0, 0, 0, 0, 0, 0, 0, 0, 48]) =
      [[808859959, 858947584, 0, 0, 0, 0, 0, 0, 0, 0, 0, 0, 0, 0, 0, 48]]"
    by code_simp
  have state1: "compress H256
      [808859959, 858947584, 0, 0, 0, 0, 0, 0, 0, 0, 0, 0, 0, 0, 0, 48] =
      [58150, 409547770, 2213605333, 2177930249, 36618363, 1939935060, 2612700743,
      780800373]"
    by code_simp
  have hex: "concat (map hex32
      [58150, 409547770, 2213605333, 2177930249, 36618363, 1939935060, 2612700743,
      780800373]) =
      ''0000e326186933fa83f0efd581d09409022ec07b73a10f549bbaa6472e8a1175''"
    by code_simp
  show ?thesis
    by (simp only: hexdigest_def sha256_def bytes padded blocks state1 hex foldl.simps)
qed

lemma sha256_block0:
  "hexdigest (encode ''0697320[]1.0'') =
     ''3e36374a7e0a68bbb7526187ccbdab4fb65d04683cd4155cc05fab31ceb7a27c''"
proof -
  have bytes: "encode ''0697320[]1.0'' =
      [48, 54, 57, 55, 51, 50, 48, 91, 93, 49, 46, 48]"
    by code_simp
  have padded: "pad
      [48, 54, 57, 55, 51, 50, 48, 91, 93, 49, 46, 48] =
      [48, 54, 57, 55, 51, 50, 48, 91, 93, 49, 46, 48, 128, 0, 0, 0, 0, 0, 0, 0, 0, 0,
      0, 0, 0, 0, 0, 0, 0, 0, 0, 0, 0, 0, 0, 0, 0, 0, 0, 0, 0, 0, 0, 0, 0, 0, 0, 0, 0,
      0, 0, 0, 0, 0, 0, 0, 0, 0, 0, 0, 0, 0, 0, 96]"
    by code_simp
  have blocks: "map (\<lambda>c. map be_int (chunks 4 c)) (chunks 64
      [48, 54, 57, 55, 51, 50, 48, 91, 93, 49, 46, 48, 128, 0, 0, 0, 0, 0, 0, 0, 0, 0,
      0, 0, 0, 0, 0, 0, 0, 0, 0, 0, 0, 0, 0, 0, 0, 0, 0, 0, 0, 0, 0, 0, 0, 0, 0, 0, 0,
      0, 0, 0, 0, 0, 0, 0, 0, 0, 0, 0, 0, 0, 0, 96]) =
      [[808859959, 858927195, 1563504176, 2147483648, 0, 0, 0, 0, 0, 0, 0, 0, 0, 0, 0,
      96]]"
    by code_simp
  have state1: "compress H256
      [808859959, 858927195, 1563504176, 2147483648, 0, 0, 0, 0, 0, 0, 0, 0, 0, 0, 0,
      96] =
      [1043740490, 2114611387, 3075629447, 3434982223, 3059549288, 1020532060,
      3227495217, 3468141180]"
    by code_simp
  have hex: "concat (map hex32
      [1043740490, 2114611387, 3075629447, 3434982223, 3059549288, 1020532060,
      3227495217, 3468141180]) =
      ''3e36374a7e0a68bbb7526187ccbdab4fb65d04683cd4155cc05fab31ceb7a27c''"
    by code_simp
  show ?thesis
    by (simp only: hexdigest_def sha256_def bytes padded blocks state1 hex foldl.simps)
qed

lemma sha256_block_epoch:
  "hexdigest (encode ''0697320[]0.0'') =
     ''ebc624d1f1762cbc5825e673a0786b840023e87372f75fa2c9a1d41d588472dc''"
proof -
  have bytes: "encode ''0697320[]0.0'' =
      [48, 54, 57, 55, 51, 50, 48, 91, 93, 48, 46, 48]"
    by code_simp
  have padded: "pad
      [48, 54, 57, 55, 51, 50, 48, 91, 93, 48, 46, 48] =
      [48, 54, 57, 55, 51, 50, 48, 91, 93, 48, 46, 48, 128, 0, 0, 0, 0, 0, 0, 0, 0, 0,
      0, 0, 0, 0, 0, 0, 0, 0, 0, 0, 0, 0, 0, 0, 0, 0, 0, 0, 0, 0, 0, 0, 0, 0, 0, 0, 0,
      0, 0, 0, 0, 0, 0, 0, 0, 0, 0, 0, 0, 0, 0, 96]"
    by code_simp
  have blocks: "map (\<lambda>c. map be_int (chunks 4 c)) (chunks 64
      [48, 54, 57, 55, 51, 50, 48, 91, 93, 48, 46, 48, 128, 0, 0, 0, 0, 0, 0, 0, 0, 0,
      0, 0, 0, 0, 0, 0, 0, 0, 0, 0, 0, 0, 0, 0, 0, 0, 0, 0, 0, 0, 0, 0, 0, 0, 0, 0, 0,
      0, 0, 0, 0, 0, 0, 0, 0, 0, 0, 0, 0, 0, 0, 96]) =
      [[808859959, 858927195, 1563438640, 2147483648, 0, 0, 0, 0, 0, 0, 0, 0, 0, 0, 0,
      96]]"
    by code_simp
  have state1: "compress H256
      [808859959, 858927195, 1563438640, 2147483648, 0, 0, 0, 0, 0, 0, 0, 0, 0, 0, 0,
      96] =
      [3955631313, 4051053756, 1478878835, 2692246404, 2353267, 1928814498, 3382826013,
      1485075164]"
    by code_simp
  have hex: "concat (map hex32
      [3955631313, 4051053756, 1478878835, 2692246404, 2353267, 1928814498, 3382826013,
      1485075164]) =
      ''ebc624d1f1762cbc5825e673a0786b840023e87372f75fa2c9a1d41d588472dc''"
    by code_simp
  show ?thesis
    by (simp only: hexdigest_def sha256_def bytes padded blocks state1 hex foldl.simps)
qed

section \<open>Evaluations used below\<close>

lemma decimal_0: "decimal 0 = ''0''"
  by code_simp

lemma decimal_1: "decimal 1 = ''1''"
  by code_simp

lemma decimal_69732: "decimal 69732 = ''69732''"
  by code_simp

lemma float_repr_1: "float_repr 1 = ''1.0''"
  by code_simp

text \<open>
  Two known answers for the float model: the \<open>repr\<close> of a clock reading of the year 2023,
  and the rounding of \<open>0.1 + 1\<close>, which Python evaluates to \<open>1.1\<close>.
\<close>

lemma float_repr_clock:
  "float_repr (1773819888370573 / 1048576) = ''1691646469.469617''"
  by code_simp

text \<open>A float that lies exactly between two numerals of seventeen digits.\<close>

lemma float_repr_tie:
  "float_repr (435200000003 / 256) = ''1700000000.0117188''"
  by code_simp

lemma float_round_sum:
  "float_round (3602879701896397 / 36028797018963968 + 1)
     = 2476979795053773 / 2251799813685248"
  by code_simp

lemma verifying_proof_0_0: "\<not> verifying_proof (PyInt 0) (PyInt 0)"
  by (simp add: verifying_proof_def decimal_0 sha256_00)

lemma verifying_proof_1_0: "\<not> verifying_proof (PyInt 1) (PyInt 0)"
  by (simp add: verifying_proof_def decimal_0 decimal_1 sha256_10)

lemma verifying_proof_0_69732: "verifying_proof (PyInt 0) (PyInt 69732)"
  by (simp add: verifying_proof_def decimal_0 decimal_69732 sha256_069732)

lemma calculate_hash_example_prev:
  "calculate_hash example_prev = ''3e36374a7e0a68bbb7526187ccbdab4fb65d04683cd4155cc05fab31ceb7a27c''"
proof -
  have "block_of_string example_prev = ''0697320[]1.0''"
    by (simp add: block_of_string_def example_prev_def decimal_0 decimal_69732 float_repr_1)
  then show ?thesis
    by (simp only: calculate_hash_def sha256_block0)
qed

lemma calculate_hash_epoch_block:
  "calculate_hash epoch_block = ''ebc624d1f1762cbc5825e673a0786b840023e87372f75fa2c9a1d41d588472dc''"
proof -
  have "block_of_string epoch_block = ''0697320[]0.0''"
    by (simp add: block_of_string_def epoch_block_def decimal_0 decimal_69732 float_repr_def)
  then show ?thesis
    by (simp only: calculate_hash_def sha256_block_epoch)
qed

section \<open>Properties of the Python operators\<close>



text \<open>Between numbers other than NaN, \<open>a > b\<close> is the order of their values.\<close>

lemma py_gt_numbers:
  "num_val a = Some x \<Longrightarrow> num_val b = Some y \<Longrightarrow> py_gt a b = Inr (y < x)"
  by (cases a; cases b) auto

lemma py_gt_nan: "is_number a \<Longrightarrow> py_gt PyNaN a = Inr False \<and> py_gt a PyNaN = Inr False"
  by (cases a) auto

section \<open>Properties of the ledger operations\<close>

lemma latest_block_nonempty: "chain self \<noteq> [] \<Longrightarrow> latest_block self = Inr (last (chain self))"
  by (cases "chain self") (simp_all add: latest_block_def)

lemma block_mining_nonempty:
  assumes "chain self \<noteq> []"
  shows "block_mining self miner now =
     (Inr (vars (Block_init (PyInt (int (length (chain self))))
                   (proof_of_work (proof_no (last (chain self))))
                   (PyStr (calculate_hash (last (chain self))))
                   (PyList (current_data self @
                      [PyDict [(''sender'', PyStr ''0''), (''recipient'', miner),
                               (''quantity'', PyInt 1)]]))
                   PyNone now)),
      self\<lparr>current_data := [],
           chain := chain self @
             [Block_init (PyInt (int (length (chain self))))
                (proof_of_work (proof_no (last (chain self))))
                (PyStr (calculate_hash (last (chain self))))
                (PyList (current_data self @
                   [PyDict [(''sender'', PyStr ''0''), (''recipient'', miner),
                            (''quantity'', PyInt 1)]]))
                PyNone now]\<rparr>)"
proof -
  let ?staged = "snd (new_data self (PyStr ''0'') miner (PyInt 1))"
  have c: "chain ?staged = chain self"
    by (simp add: new_data_def)
  then have "latest_block ?staged = Inr (last (chain self))"
    using assms latest_block_nonempty [of ?staged] by simp
  then show ?thesis
    by (simp add: block_mining_def Let_def construct_block_def) (simp add: new_data_def)
qed

text \<open>The chain of a ledger is never empty: the constructor appends the genesis block,
  and no operation removes a block.\<close>

lemma reachable_chain_nonempty: "reachable self \<Longrightarrow> chain self \<noteq> []"
proof (induction rule: reachable.induct)
  case (reachable_init now)
  show ?case
    by (simp add: BlockChain_init_def construct_genesis_def construct_block_def Let_def)
next
  case (reachable_genesis self now)
  then show ?case by (simp add: construct_genesis_def construct_block_def Let_def)
next
  case (reachable_block self p h now)
  then show ?case by (simp add: construct_block_def Let_def)
next
  case (reachable_new_data self s r q)
  then show ?case by (simp add: new_data_def)
next
  case (reachable_mining self miner now)
  then show ?case by (simp add: block_mining_nonempty)
next
  case (reachable_node self address)
  then show ?case by (simp add: create_node_def)
qed

lemma obtain_block_object_vars:
  "obtain_block_object (vars b) now = Inr (b\<lparr>timestamp := py_or (timestamp b) (PyFloat now)\<rparr>)"
  by (simp add: obtain_block_object_def getitem_def vars_def Block_init_def)

section \<open>The claims\<close>

text \<open>
  C1. The claim: \<open>proof_of_work(last_proof)\<close> returns the smallest non-negative candidate
  that satisfies the verification predicate against \<open>last_proof\<close>, by a scan from 0.
  The code does not: at \<open>last_proof = 0\<close> it returns 1, which does not satisfy the
  predicate, and at \<open>last_proof = 69732\<close>, where candidate 0 satisfies it, it returns
  \<open>None\<close> instead of 0.
\<close>

theorem proof_of_work_not_a_search:
  "proof_of_work (PyInt 0) = PyInt 1 \<and> \<not> verifying_proof (PyInt 1) (PyInt 0)
   \<and> proof_of_work (PyInt 69732) = PyNone \<and> verifying_proof (PyInt 0) (PyInt 69732)"
  using verifying_proof_0_0 verifying_proof_1_0 verifying_proof_0_69732
  by (simp add: proof_of_work_def)




text \<open>
  C3. For integers \<open>a\<close> and \<open>b\<close>, \<open>verifying_proof(a, b)\<close> is true exactly when the
  hexadecimal SHA-256 digest of the decimal text of \<open>a\<close> followed by that of \<open>b\<close>
  begins with \<open>0000\<close>.
\<close>

theorem verifying_proof_spec:
  "verifying_proof (PyInt a) (PyInt b) = spec_verify a b"
  by (simp add: verifying_proof_def spec_verify_def)

theorem verifying_proof_spec_witness:
  "verifying_proof (PyInt 0) (PyInt 69732) \<and> spec_verify 0 69732
   \<and> \<not> verifying_proof (PyInt 0) (PyInt 0) \<and> \<not> spec_verify 0 0"
  using verifying_proof_spec [of 0 69732] verifying_proof_spec [of 0 0]
    verifying_proof_0_69732 verifying_proof_0_0
  by simp



text \<open>
  C5, as the code has it. \<open>latest_block()\<close> on an empty chain raises the built-in
  \<open>IndexError\<close> of the subscript \<open>self.chain[-1]\<close>; on a non-empty chain it returns the
  last element. The repository defines no \<open>EmptyChainError\<close>.
\<close>

theorem latest_block_cases:
  "latest_block self = (if chain self = [] then Inl IndexError else Inr (last (chain self)))"
  by (cases "chain self") (simp_all add: latest_block_def)

theorem latest_block_cases_witness:
  "latest_block empty_ledger = Inl IndexError
   \<and> latest_block (BlockChain_init 1) = Inr (last (chain (BlockChain_init 1)))"
  using latest_block_cases [of empty_ledger] latest_block_cases [of "BlockChain_init 1"]
  by (simp add: empty_ledger_def BlockChain_init_def construct_genesis_def construct_block_def Let_def)

text \<open>At the empty ledger the exception is \<open>IndexError\<close>, under that name.\<close>

theorem latest_block_empty_counterexample:
  "latest_block empty_ledger = Inl IndexError
   \<and> exception_name IndexError \<noteq> ''EmptyChainError''"
  by (simp add: latest_block_def empty_ledger_def)

text \<open>
  C6. A freshly constructed ledger has a chain of length 1; its genesis block has index
  0, proof number 0, \<open>prev_hash\<close> 0 and no transactions, and nothing is pending.
\<close>

theorem fresh_ledger:
  "length (chain (BlockChain_init now)) = 1
   \<and> index (hd (chain (BlockChain_init now))) = PyInt 0
   \<and> proof_no (hd (chain (BlockChain_init now))) = PyInt 0
   \<and> prev_hash (hd (chain (BlockChain_init now))) = PyInt 0
   \<and> data (hd (chain (BlockChain_init now))) = PyList []
   \<and> current_data (BlockChain_init now) = []"
  by (simp add: BlockChain_init_def construct_genesis_def construct_block_def Let_def Block_init_def)

theorem fresh_ledger_witness:
  "chain (BlockChain_init 1691646469) =
     [\<lparr>index = PyInt 0, proof_no = PyInt 0, prev_hash = PyInt 0, data = PyList [],
       timestamp = PyFloat 1691646469\<rparr>]
   \<and> length (chain (BlockChain_init 1691646469)) = 1
   \<and> current_data (BlockChain_init 1691646469) = []"
  using fresh_ledger [of 1691646469]
  by (simp add: BlockChain_init_def construct_genesis_def construct_block_def Let_def
      Block_init_def py_or_def)

text \<open>
  C7, as the code has it. For every block whose stored timestamp is truthy,
  \<open>obtain_block_object(vars(block))\<close> rebuilds the block itself, so the content hashes
  are equal; every block that the constructor builds at a clock reading other than zero
  is such a block. A block whose stored timestamp is falsy is rebuilt with the clock
  reading of the reconstruction as its timestamp.
\<close>

theorem round_trip_hash:
  "(py_truthy (timestamp b) \<longrightarrow>
      obtain_block_object (vars b) later = Inr b
      \<and> (\<exists>b'. obtain_block_object (vars b) later = Inr b'
                \<and> calculate_hash b' = calculate_hash b))
   \<and> (\<not> py_truthy (timestamp b) \<longrightarrow>
        obtain_block_object (vars b) later = Inr (b\<lparr>timestamp := PyFloat later\<rparr>))
   \<and> (now \<noteq> 0 \<longrightarrow> py_truthy (timestamp (Block_init i p h d t now)))"
  by (simp add: obtain_block_object_vars py_or_def Block_init_def)

theorem round_trip_hash_witness:
  "py_truthy (timestamp example_prev) \<and> \<not> py_truthy (timestamp epoch_block)
   \<and> (1691646469 :: rat) \<noteq> 0
   \<and> obtain_block_object (vars example_prev) 1700000000 = Inr example_prev
   \<and> (\<exists>b'. obtain_block_object (vars example_prev) 1700000000 = Inr b'
             \<and> calculate_hash b' = calculate_hash example_prev)
   \<and> obtain_block_object (vars epoch_block) 1700000000
        = Inr (epoch_block\<lparr>timestamp := PyFloat 1700000000\<rparr>)
   \<and> py_truthy (timestamp (Block_init (PyInt 5) (PyInt 30) (PyStr ''5a27'') (PyList []) PyNone
                               1691646469))"
proof -
  have a: "py_truthy (timestamp example_prev)" "\<not> py_truthy (timestamp epoch_block)"
    by (simp_all add: example_prev_def epoch_block_def)
  have b: "(1691646469 :: rat) \<noteq> 0" by simp
  show ?thesis
    using round_trip_hash [of example_prev 1700000000 1691646469 "PyInt 5" "PyInt 30"
        "PyStr ''5a27''" "PyList []" PyNone]
      round_trip_hash [of epoch_block 1700000000 1691646469 "PyInt 5" "PyInt 30"
        "PyStr ''5a27''" "PyList []" PyNone] a b
    by blast
qed

text \<open>
  The block built while the clock reads \<open>0.0\<close> comes back from the round trip, made when
  the clock reads \<open>1.0\<close>, with another timestamp and another content hash.
\<close>

theorem round_trip_hash_counterexample:
  "epoch_block = Block_init (PyInt 0) (PyInt 69732) (PyInt 0) (PyList []) PyNone 0
   \<and> obtain_block_object (vars epoch_block) 1 = Inr example_prev
   \<and> calculate_hash example_prev \<noteq> calculate_hash epoch_block"
proof -
  have "epoch_block = Block_init (PyInt 0) (PyInt 69732) (PyInt 0) (PyList []) PyNone 0"
    by (simp add: epoch_block_def Block_init_def py_or_def)
  moreover have "obtain_block_object (vars epoch_block) 1 = Inr example_prev"
    by (simp add: obtain_block_object_vars py_or_def epoch_block_def example_prev_def)
  moreover have "calculate_hash example_prev \<noteq> calculate_hash epoch_block"
    by (simp add: calculate_hash_example_prev calculate_hash_epoch_block)
  ultimately show ?thesis by simp
qed

text \<open>
  C8, as the code has it. When one of the five keys is absent, \<open>obtain_block_object\<close>
  raises the built-in \<open>KeyError\<close> for the first absent key in the order \<open>index\<close>,
  \<open>proof_no\<close>, \<open>prev_hash\<close>, \<open>data\<close>, \<open>timestamp\<close>; when all five are present it builds
  the block from the values bound to them, of whatever type. The repository defines no
  \<open>MalformedRecordError\<close> and checks no types.
\<close>

theorem obtain_block_object_cases:
  "obtain_block_object block_data now =
     (case find (\<lambda>k. map_of block_data k = None) required_keys of
        Some k \<Rightarrow> Inl (KeyError k)
      | None \<Rightarrow>
          Inr (Block_init (the (map_of block_data ''index'')) (the (map_of block_data ''proof_no''))
                 (the (map_of block_data ''prev_hash'')) (the (map_of block_data ''data''))
                 (the (map_of block_data ''timestamp'')) now))"
  by (auto simp add: obtain_block_object_def getitem_def required_keys_def split: option.splits)

theorem obtain_block_object_cases_witness:
  "obtain_block_object [(''index'', PyInt 1), (''proof_no'', PyInt 1)] 1 = Inl (KeyError ''prev_hash'')
   \<and> obtain_block_object ill_typed_record 1 =
       Inr (Block_init (PyStr ''first'') (PyList []) PyNone (PyInt 7) (PyStr ''noon'') 1)"
  using obtain_block_object_cases [of "[(''index'', PyInt 1), (''proof_no'', PyInt 1)]" 1]
    obtain_block_object_cases [of ill_typed_record 1]
  by (simp add: required_keys_def ill_typed_record_def)

text \<open>
  A record whose five values all have the wrong type is accepted, and the empty record
  raises \<open>KeyError\<close>, under that name.
\<close>

theorem obtain_block_object_counterexample:
  "obtain_block_object ill_typed_record 1 =
     Inr \<lparr>index = PyStr ''first'', proof_no = PyList [], prev_hash = PyNone,
          data = PyInt 7, timestamp = PyStr ''noon''\<rparr>
   \<and> obtain_block_object [] 1 = Inl (KeyError ''index'')
   \<and> exception_name (KeyError ''index'') \<noteq> ''MalformedRecordError''"
  by (simp add: obtain_block_object_def getitem_def ill_typed_record_def Block_init_def py_or_def)

text \<open>
  C9. For every integer \<open>last_proof\<close>, \<open>proof_of_work(last_proof)\<close> is 1 when the
  predicate fails for candidate 0 and \<open>None\<close> when it holds for candidate 0, whatever
  later candidates do; so mining on a tip whose proof number satisfies the predicate
  with candidate 0 appends a block whose \<open>proof_no\<close> is \<open>None\<close>.
\<close>

theorem proof_of_work_single_probe:
  "proof_of_work (PyInt last_proof) =
     (if verifying_proof (PyInt 0) (PyInt last_proof) then PyNone else PyInt 1)
   \<and> (chain self \<noteq> [] \<and> verifying_proof (PyInt 0) (proof_no (last (chain self)))
        \<longrightarrow> proof_no (last (chain (snd (block_mining self miner now)))) = PyNone)"
proof -
  have "proof_no (last (chain (snd (block_mining self miner now)))) = PyNone"
    if "chain self \<noteq> []" and "verifying_proof (PyInt 0) (proof_no (last (chain self)))"
    using that by (simp add: block_mining_nonempty proof_of_work_def Block_init_def)
  then show ?thesis
    by (simp add: proof_of_work_def)
qed

theorem proof_of_work_single_probe_witness:
  "proof_of_work (PyInt 69732) = PyNone \<and> proof_of_work (PyInt 0) = PyInt 1
   \<and> proof_no (last (chain (snd (block_mining
        \<lparr>chain = [example_prev], current_data = [], nodes = []\<rparr> (PyStr ''miner1'') 2)))) = PyNone"
proof -
  let ?L = "\<lparr>chain = [example_prev], current_data = [], nodes = []\<rparr>"
  have a: "chain ?L \<noteq> [] \<and> verifying_proof (PyInt 0) (proof_no (last (chain ?L)))"
    using verifying_proof_0_69732 by (simp add: example_prev_def)
  show ?thesis
    using proof_of_work_single_probe [of 69732 ?L "PyStr ''miner1''" 2]
      proof_of_work_single_probe [of 0 ?L "PyStr ''miner1''" 2] a
      verifying_proof_0_69732 verifying_proof_0_0
    by simp
qed

text \<open>
  C10. A block constructed with a falsy timestamp stores the clock reading instead; a
  truthy timestamp is stored unchanged. So deserialising a record whose timestamp is 0
  yields a block whose timestamp is the clock reading, not 0.
\<close>

theorem falsy_timestamp_replaced:
  "(\<not> py_truthy t \<longrightarrow> timestamp (Block_init i p h d t now) = PyFloat now)
   \<and> (py_truthy t \<longrightarrow> timestamp (Block_init i p h d t now) = t)
   \<and> (\<exists>b. obtain_block_object
              [(''index'', i), (''proof_no'', p), (''prev_hash'', h), (''data'', d),
               (''timestamp'', PyInt 0)] now = Inr b
          \<and> timestamp b = PyFloat now \<and> timestamp b \<noteq> PyInt 0
          \<and> (now \<noteq> 0 \<longrightarrow> \<not> py_eq (timestamp b) (PyInt 0)))"
  by (simp add: Block_init_def py_or_def obtain_block_object_def getitem_def)

theorem falsy_timestamp_replaced_witness:
  "\<not> py_truthy (PyInt 0) \<and> \<not> py_truthy (PyFloat 0) \<and> py_truthy (PyFloat 5) \<and> (7 :: rat) \<noteq> 0
   \<and> timestamp (Block_init (PyInt 1) (PyInt 1) (PyInt 0) (PyList []) (PyInt 0) 7) = PyFloat 7
   \<and> timestamp (Block_init (PyInt 1) (PyInt 1) (PyInt 0) (PyList []) (PyFloat 0) 7) = PyFloat 7
   \<and> timestamp (Block_init (PyInt 1) (PyInt 1) (PyInt 0) (PyList []) (PyFloat 5) 7) = PyFloat 5
   \<and> (\<exists>b. obtain_block_object
              [(''index'', PyInt 1), (''proof_no'', PyInt 1), (''prev_hash'', PyInt 0),
               (''data'', PyList []), (''timestamp'', PyInt 0)] 7 = Inr b
          \<and> timestamp b = PyFloat 7 \<and> \<not> py_eq (timestamp b) (PyInt 0))"
  using falsy_timestamp_replaced [of "PyInt 0" "PyInt 1" "PyInt 1" "PyInt 0" "PyList []" 7]
    falsy_timestamp_replaced [of "PyFloat 0" "PyInt 1" "PyInt 1" "PyInt 0" "PyList []" 7]
    falsy_timestamp_replaced [of "PyFloat 5" "PyInt 1" "PyInt 1" "PyInt 0" "PyList []" 7]
  by simp blast

end
